theory Spec2Isabelle
  imports Main "HOL-Library.AList" "HOL-Library.Multiset"
begin

section \<open>Python values\<close>

text \<open>
  The response content, the rejection payload and the rows of the store are duck-typed
  Python values. \<open>pyval\<close> holds the shapes the code inspects: \<open>None\<close>, booleans,
  integers, strings, lists and dictionaries (an association list, the first binding of a
  key being the one a lookup finds). Strings stand for ASCII text.
\<close>

datatype pyval =
    PNone
  | PBool bool
  | PInt int
  | PStr string
  | PList "pyval list"
  | PDict "(string \<times> pyval) list"

text \<open>The exceptions that the code raises, catches or lets through, with their message.\<close>

datatype exc =
    RuntimeError string
  | BadRequestError string pyval
  | NotFoundError string
  | TimeoutError string
  | AttributeError string
  | TypeError string
  | OtherError string string

fun exc_str :: "exc \<Rightarrow> string" where
  "exc_str (RuntimeError m) = m"
| "exc_str (BadRequestError m body) = m"
| "exc_str (NotFoundError m) = m"
| "exc_str (TimeoutError m) = m"
| "exc_str (AttributeError m) = m"
| "exc_str (TypeError m) = m"
| "exc_str (OtherError cls m) = m"

text \<open>Truth value of a Python value, as \<open>if x:\<close> and \<open>x or y\<close> test it.\<close>

fun truthy :: "pyval \<Rightarrow> bool" where
  "truthy PNone = False"
| "truthy (PBool b) = b"
| "truthy (PInt i) = (i \<noteq> 0)"
| "truthy (PStr s) = (s \<noteq> [])"
| "truthy (PList xs) = (xs \<noteq> [])"
| "truthy (PDict kvs) = (kvs \<noteq> [])"

fun type_name :: "pyval \<Rightarrow> string" where
  "type_name PNone = ''NoneType''"
| "type_name (PBool b) = ''bool''"
| "type_name (PInt i) = ''int''"
| "type_name (PStr s) = ''str''"
| "type_name (PList xs) = ''list''"
| "type_name (PDict kvs) = ''dict''"

subsection \<open>\<open>str\<close> and \<open>repr\<close>\<close>

definition digit_char :: "nat \<Rightarrow> char" where
  "digit_char d =
     (if d = 0 then CHR ''0'' else if d = 1 then CHR ''1'' else if d = 2 then CHR ''2''
      else if d = 3 then CHR ''3'' else if d = 4 then CHR ''4'' else if d = 5 then CHR ''5''
      else if d = 6 then CHR ''6'' else if d = 7 then CHR ''7'' else if d = 8 then CHR ''8''
      else CHR ''9'')"

fun str_nat :: "nat \<Rightarrow> string" where
  "str_nat n = (if n < 10 then [digit_char n] else str_nat (n div 10) @ [digit_char (n mod 10)])"

declare str_nat.simps [simp del]

definition str_int :: "int \<Rightarrow> string" where
  "str_int i = (if i < 0 then CHR ''-'' # str_nat (nat (- i)) else str_nat (nat i))"

definition squote :: char where
  "squote = CHR 0x27"

definition dquote :: char where
  "dquote = CHR 0x22"

definition backslash :: char where
  "backslash = CHR 0x5C"

definition hex_char :: "nat \<Rightarrow> char" where
  "hex_char d =
     (if d < 10 then digit_char d else if d = 10 then CHR ''a'' else if d = 11 then CHR ''b''
      else if d = 12 then CHR ''c'' else if d = 13 then CHR ''d'' else if d = 14 then CHR ''e''
      else CHR ''f'')"

text \<open>
  \<open>repr\<close> of a string: the text between quotes, the backslash and the quote in use escaped,
  tab, newline and carriage return by their letters, any other control character as
  \<open>\xNN\<close>. Python takes double quotes when the text holds a single quote and no double one.
\<close>

definition repr_char :: "char \<Rightarrow> char \<Rightarrow> string" where
  "repr_char q c =
     (if c = backslash then [backslash, backslash]
      else if c = q then [backslash, q]
      else if c = CHR 0x09 then [backslash, CHR ''t'']
      else if c = CHR 0x0A then [backslash, CHR ''n'']
      else if c = CHR 0x0D then [backslash, CHR ''r'']
      else if (of_char c :: nat) < 32 \<or> (of_char c :: nat) = 127
        then [backslash, CHR ''x'', hex_char ((of_char c :: nat) div 16),
              hex_char ((of_char c :: nat) mod 16)]
      else [c])"

definition repr_str :: "string \<Rightarrow> string" where
  "repr_str s =
     (let q = (if squote \<in> set s \<and> dquote \<notin> set s then dquote else squote)
      in q # concat (map (repr_char q) s) @ [q])"

text \<open>\<open>', '.join(xs)\<close>.\<close>

fun comma_join :: "string list \<Rightarrow> string" where
  "comma_join [] = []"
| "comma_join [x] = x"
| "comma_join (x # y # ys) = x @ '', '' @ comma_join (y # ys)"

fun py_repr :: "pyval \<Rightarrow> string" where
  "py_repr PNone = ''None''"
| "py_repr (PBool b) = (if b then ''True'' else ''False'')"
| "py_repr (PInt i) = str_int i"
| "py_repr (PStr s) = repr_str s"
| "py_repr (PList xs) = ''['' @ comma_join (map py_repr xs) @ '']''"
| "py_repr (PDict kvs) =
     ''{'' @ comma_join (map (\<lambda>kv. repr_str (fst kv) @ '': '' @ py_repr (snd kv)) kvs) @ ''}''"

text \<open>\<open>str(x)\<close>: a string is itself, anything else prints as its \<open>repr\<close>.\<close>

fun py_str :: "pyval \<Rightarrow> string" where
  "py_str (PStr s) = s"
| "py_str v = py_repr v"

subsection \<open>Dictionary access\<close>

text \<open>
  \<open>d.get(key, default)\<close>. Only a dictionary has the method: on any other value the
  attribute lookup raises \<open>AttributeError\<close>.
\<close>

fun py_get :: "pyval \<Rightarrow> string \<Rightarrow> pyval \<Rightarrow> exc + pyval" where
  "py_get (PDict kvs) k d = Inr (case map_of kvs k of None \<Rightarrow> d | Some v \<Rightarrow> v)"
| "py_get v k d =
     Inl (AttributeError ([squote] @ type_name v @ [squote] @ '' object has no attribute 'get'' @ [squote]))"

section \<open>LLM client adapter (utils/azure_llm.py)\<close>

subsection \<open>\<open>_content_to_text\<close>\<close>

text \<open>
  The loop over the items of a list content: a dictionary contributes its \<open>text\<close> entry when
  that is truthy, a bare string contributes itself, anything else is passed over.
\<close>

fun collect_parts :: "pyval list \<Rightarrow> pyval list" where
  "collect_parts [] = []"
| "collect_parts (PDict kvs # rest) =
     (let text = (case map_of kvs ''text'' of None \<Rightarrow> PNone | Some v \<Rightarrow> v)
      in if truthy text then text # collect_parts rest else collect_parts rest)"
| "collect_parts (PStr s # rest) = PStr s # collect_parts rest"
| "collect_parts (item # rest) = collect_parts rest"

text \<open>
  \<open>"".join(parts)\<close>: every item has to be a string; the first one that is not raises
  \<open>TypeError\<close>, naming its position and type.
\<close>

fun str_join :: "nat \<Rightarrow> pyval list \<Rightarrow> exc + string" where
  "str_join i [] = Inr []"
| "str_join i (PStr s # rest) =
     (case str_join (Suc i) rest of Inl e \<Rightarrow> Inl e | Inr t \<Rightarrow> Inr (s @ t))"
| "str_join i (v # rest) =
     Inl (TypeError (''sequence item '' @ str_nat i @ '': expected str instance, ''
                     @ type_name v @ '' found''))"

text \<open>The last line of the function, \<open>str(content or "")\<close>.\<close>

definition str_or_empty :: "pyval \<Rightarrow> string" where
  "str_or_empty content = py_str (if truthy content then content else PStr [])"

definition content_to_text :: "pyval \<Rightarrow> exc + string" where
  "content_to_text content =
     (case content of
        PStr s \<Rightarrow> Inr s
      | PList items \<Rightarrow>
          (let parts = collect_parts items
           in if parts \<noteq> [] then str_join 0 parts else Inr (str_or_empty content))
      | _ \<Rightarrow> Inr (str_or_empty content))"

subsection \<open>Configuration and the cached client\<close>

definition DEFAULT_AZURE_OPENAI_API_VERSION :: string where
  "DEFAULT_AZURE_OPENAI_API_VERSION = ''2024-02-15-preview''"

text \<open>\<open>if not value\<close> is true of \<open>None\<close> and of the empty string.\<close>

definition require_azure_env :: "string option \<Rightarrow> string \<Rightarrow> exc + string" where
  "require_azure_env v name =
     (case v of
        None \<Rightarrow> Inl (RuntimeError (''Missing required environment variable: '' @ name))
      | Some s \<Rightarrow>
          if s = [] then Inl (RuntimeError (''Missing required environment variable: '' @ name))
          else Inr s)"

definition rstrip_slash :: "string \<Rightarrow> string" where
  "rstrip_slash s = rev (dropWhile (\<lambda>c. c = CHR ''/'') (rev s))"

definition endswith :: "string \<Rightarrow> string \<Rightarrow> bool" where
  "endswith s suf = (length suf \<le> length s \<and> drop (length s - length suf) s = suf)"

text \<open>\<open>sub in s\<close> on strings.\<close>

fun contains :: "string \<Rightarrow> string \<Rightarrow> bool" where
  "contains sub [] = (sub = [])"
| "contains sub (c # cs) = (take (length sub) (c # cs) = sub \<or> contains sub cs)"

datatype client =
    OpenAI (base_url: string) (api_key: string) (default_headers: "(string \<times> string) list")
  | AzureOpenAI (azure_key: string) (api_version: string) (azure_endpoint: string)

definition build_openai_compatible_client :: "string \<Rightarrow> string \<Rightarrow> client" where
  "build_openai_compatible_client endpoint key =
     (let base = rstrip_slash endpoint;
          base' = (if \<not> endswith base ''/openai/v1'' then base @ ''/openai/v1/'' else base)
      in OpenAI base' key [(''api-key'', key)])"

text \<open>
  \<open>get_azure_client\<close> is wrapped in \<open>lru_cache(maxsize=1)\<close>: \<open>cache\<close> is the client an
  earlier call returned, if any, and then the environment is not read again. A call that
  raises leaves the cache empty.
\<close>

definition get_azure_client :: "client option \<Rightarrow> (string \<Rightarrow> string option) \<Rightarrow> exc + client" where
  "get_azure_client cache getenv =
     (case cache of
        Some c \<Rightarrow> Inr c
      | None \<Rightarrow>
          (case require_azure_env (getenv ''AZURE_OPENAI_ENDPOINT'') ''AZURE_OPENAI_ENDPOINT'' of
             Inl e \<Rightarrow> Inl e
           | Inr ep \<Rightarrow>
               (let endpoint = rstrip_slash ep in
               (case require_azure_env (getenv ''AZURE_OPENAI_API_KEY'') ''AZURE_OPENAI_API_KEY'' of
                  Inl e \<Rightarrow> Inl e
                | Inr key \<Rightarrow>
                    (let version = (case getenv ''AZURE_OPENAI_API_VERSION'' of
                                      None \<Rightarrow> DEFAULT_AZURE_OPENAI_API_VERSION
                                    | Some v \<Rightarrow> v)
                     in if contains ''.services.ai.azure.com'' endpoint
                           \<or> endswith endpoint ''/openai/v1''
                           \<or> contains ''/openai/'' endpoint
                        then Inr (build_openai_compatible_client endpoint key)
                        else Inr (AzureOpenAI key version endpoint))))))"

subsection \<open>The provider\<close>

text \<open>
  A float (the temperature, the timeout) is named by the text Python prints for it, which
  is all the code does with one besides handing it to the transport.
\<close>

datatype pyfloat = Float (float_str: string)

record request =
  req_model :: string
  req_messages :: "pyval list"
  req_temperature :: pyfloat
  req_timeout :: pyfloat

text \<open>
  The objects of a streamed reply. \<open>ev_choices\<close> is \<open>None\<close> when the event has no
  \<open>choices\<close> attribute, \<open>sc_delta\<close> when the choice has no \<open>delta\<close> or a null one. A
  stream hands out its events in order and then either ends or raises.
\<close>

datatype delta = Delta (content: pyval)

datatype stream_choice = StreamChoice (sc_delta: "delta option")

datatype event = Event (ev_choices: "stream_choice list option")

datatype stream = Stream (events: "event list") (failure: "exc option")

text \<open>The single-shot reply: \<open>choices\<close> is \<open>None\<close> when the field is null.\<close>

datatype choice = Choice (message_content: pyval)

datatype completion = Completion (choices: "choice list option")

subsection \<open>Error taxonomy\<close>

text \<open>
  The code raises \<open>RuntimeError\<close> throughout and tells the kinds apart by the message. The
  names are those of the error taxonomy.
\<close>

definition PromptInjectionBlocked :: exc where
  "PromptInjectionBlocked = RuntimeError
     (''This request was blocked by Azure's content safety filters. ''
      @ ''It appears to be attempting to bypass system instructions or extract sensitive prompts. ''
      @ ''Please rephrase your question to focus on the information you need.'')"

definition ContentPolicyBlocked :: exc where
  "ContentPolicyBlocked = RuntimeError
     (''This request was blocked by Azure's content safety filters. ''
      @ ''Please rephrase your question in a way that complies with content policies.'')"

definition RequestTimeout :: "pyfloat \<Rightarrow> exc" where
  "RequestTimeout timeout = RuntimeError
     (''Azure OpenAI request timed out after '' @ float_str timeout @ ''s. ''
      @ ''The service may be slow or unavailable.'')"

definition StreamProcessingError :: "exc \<Rightarrow> exc" where
  "StreamProcessingError e = RuntimeError (''Error during Azure OpenAI stream processing: '' @ exc_str e)"

text \<open>
  The handler \<open>except BadRequestError as exc\<close>, the same text in both operations: the
  exception that leaves it. A \<open>.get\<close> on something that is not a dictionary raises inside
  the handler, and that exception is the one that leaves.
\<close>

definition on_bad_request :: "string \<Rightarrow> pyval \<Rightarrow> exc" where
  "on_bad_request msg body =
     (let error_body = (if truthy body then body else PDict []) in
      case py_get error_body ''error'' (PDict []) of Inl e \<Rightarrow> e | Inr error_detail \<Rightarrow>
     (case py_get error_detail ''code'' (PStr []) of Inl e \<Rightarrow> e | Inr error_code \<Rightarrow>
      if error_code = PStr ''content_filter'' then
        (case py_get error_detail ''innererror'' (PDict []) of Inl e \<Rightarrow> e | Inr inner_error \<Rightarrow>
        (case py_get inner_error ''content_filter_result'' (PDict []) of Inl e \<Rightarrow> e | Inr filter_result \<Rightarrow>
        (case py_get filter_result ''jailbreak'' (PDict []) of Inl e \<Rightarrow> e | Inr jailbreak \<Rightarrow>
        (case py_get jailbreak ''filtered'' PNone of Inl e \<Rightarrow> e | Inr filtered \<Rightarrow>
         if truthy filtered then PromptInjectionBlocked else ContentPolicyBlocked))))
      else BadRequestError msg body))"

subsection \<open>\<open>stream_chat\<close>\<close>

text \<open>
  A run of the generator is the list of fragments it yields, in order, and the way it ends:
  \<open>None\<close> when it is exhausted, \<open>Some e\<close> when it raises \<open>e\<close>.
\<close>

type_synonym run = "string list \<times> exc option"

text \<open>The inner loop, over the choices of one event.\<close>

fun drain_choices :: "stream_choice list \<Rightarrow> run" where
  "drain_choices [] = ([], None)"
| "drain_choices (c # cs) =
     (case sc_delta c of
        None \<Rightarrow> drain_choices cs
      | Some d \<Rightarrow>
          if truthy (content d) then
            (case content_to_text (content d) of
               Inl e \<Rightarrow> ([], Some e)
             | Inr t \<Rightarrow> (t # fst (drain_choices cs), snd (drain_choices cs)))
          else drain_choices cs)"

text \<open>The outer loop, over the events; \<open>fl\<close> is how the stream itself ends.\<close>

fun drain :: "event list \<Rightarrow> exc option \<Rightarrow> run" where
  "drain [] fl = ([], fl)"
| "drain (ev # evs) fl =
     (case drain_choices (case ev_choices ev of None \<Rightarrow> [] | Some cs \<Rightarrow> cs) of
        (ys, Some e) \<Rightarrow> (ys, Some e)
      | (ys, None) \<Rightarrow> (ys @ fst (drain evs fl), snd (drain evs fl)))"

text \<open>\<open>except Exception as exc: raise RuntimeError(...)\<close> around the loops.\<close>

definition wrap_stream_errors :: "run \<Rightarrow> run" where
  "wrap_stream_errors r = (fst r, map_option StreamProcessingError (snd r))"

definition stream_chat ::
  "client option \<Rightarrow> (string \<Rightarrow> string option) \<Rightarrow> (client \<Rightarrow> request \<Rightarrow> exc + stream) \<Rightarrow>
   string option \<Rightarrow> pyval list \<Rightarrow> pyfloat \<Rightarrow> string \<Rightarrow> pyfloat \<Rightarrow> run" where
  "stream_chat cache getenv create deployment messages temperature deployment_name timeout =
     (case require_azure_env deployment deployment_name of Inl e \<Rightarrow> ([], Some e) | Inr model \<Rightarrow>
     (case get_azure_client cache getenv of Inl e \<Rightarrow> ([], Some e) | Inr cl \<Rightarrow>
     (case create cl \<lparr>req_model = model, req_messages = messages,
                       req_temperature = temperature, req_timeout = timeout\<rparr> of
        Inl (BadRequestError msg body) \<Rightarrow> ([], Some (on_bad_request msg body))
      | Inl (NotFoundError msg) \<Rightarrow>
          ([], Some (RuntimeError
             (''Azure OpenAI deployment '' @ [squote] @ model @ [squote] @ '' was not found. ''
              @ ''Ensure AZURE_PHI4_ORCHESTRATOR (or AZURE_OPENAI_DEPLOYMENT) matches the deployment name in Azure.'')))
      | Inl (TimeoutError msg) \<Rightarrow> ([], Some (RequestTimeout timeout))
      | Inl e \<Rightarrow> ([], Some e)
      | Inr st \<Rightarrow> wrap_stream_errors (drain (events st) (failure st)))))"

subsection \<open>\<open>complete_chat\<close>\<close>

definition complete_chat ::
  "client option \<Rightarrow> (string \<Rightarrow> string option) \<Rightarrow> (client \<Rightarrow> request \<Rightarrow> exc + completion) \<Rightarrow>
   string option \<Rightarrow> pyval list \<Rightarrow> pyfloat \<Rightarrow> string \<Rightarrow> pyfloat \<Rightarrow> exc + string" where
  "complete_chat cache getenv create deployment messages temperature deployment_name timeout =
     (case require_azure_env deployment deployment_name of Inl e \<Rightarrow> Inl e | Inr model \<Rightarrow>
     (case get_azure_client cache getenv of Inl e \<Rightarrow> Inl e | Inr cl \<Rightarrow>
     (case create cl \<lparr>req_model = model, req_messages = messages,
                       req_temperature = temperature, req_timeout = timeout\<rparr> of
        Inl (BadRequestError msg body) \<Rightarrow> Inl (on_bad_request msg body)
      | Inl (NotFoundError msg) \<Rightarrow>
          Inl (RuntimeError
             (''Azure OpenAI deployment '' @ [squote] @ model @ [squote] @ '' was not found. ''
              @ ''Check AZURE_PHI4_EMAIL/AZURE_PHI4_MEETING env vars and ensure the deployments exist.''))
      | Inl (TimeoutError msg) \<Rightarrow> Inl (RequestTimeout timeout)
      | Inl e \<Rightarrow> Inl e
      | Inr resp \<Rightarrow>
          (case choices resp of
             None \<Rightarrow> Inr []
           | Some [] \<Rightarrow> Inr []
           | Some (c # cs) \<Rightarrow> content_to_text (message_content c)))))"

section \<open>Reading a rejection payload and a stream\<close>

text \<open>
  The jailbreak flag of an error detail as the wire protocol describes it, read along
  \<open>innererror\<close>, \<open>content_filter_result\<close>, \<open>jailbreak\<close>, \<open>filtered\<close>. The flag is
  \<open>Absent\<close> when a key on the way is missing or the flag itself is null, and \<open>Unreadable\<close>
  when a value on the way is present but is not an object, or the flag is not a boolean.
\<close>

datatype flag = Flag bool | Absent | Unreadable

definition flag_member :: "pyval \<Rightarrow> string \<Rightarrow> pyval option option" where
  "flag_member v k = (case v of PDict kvs \<Rightarrow> Some (map_of kvs k) | _ \<Rightarrow> None)"

definition spec_jailbreak_flag :: "pyval \<Rightarrow> flag" where
  "spec_jailbreak_flag detail =
     (case flag_member detail ''innererror'' of None \<Rightarrow> Unreadable | Some None \<Rightarrow> Absent
      | Some (Some inner) \<Rightarrow>
     (case flag_member inner ''content_filter_result'' of None \<Rightarrow> Unreadable | Some None \<Rightarrow> Absent
      | Some (Some fr) \<Rightarrow>
     (case flag_member fr ''jailbreak'' of None \<Rightarrow> Unreadable | Some None \<Rightarrow> Absent
      | Some (Some jb) \<Rightarrow>
     (case flag_member jb ''filtered'' of None \<Rightarrow> Unreadable | Some None \<Rightarrow> Absent
      | Some (Some (PBool b)) \<Rightarrow> Flag b
      | Some (Some PNone) \<Rightarrow> Absent
      | Some (Some _) \<Rightarrow> Unreadable))))"

text \<open>The delta contents of a stream, in the order the loops of \<open>stream_chat\<close> meet them.\<close>

fun stream_contents :: "event list \<Rightarrow> pyval list" where
  "stream_contents [] = []"
| "stream_contents (ev # evs) =
     map content (List.map_filter sc_delta (case ev_choices ev of None \<Rightarrow> [] | Some cs \<Rightarrow> cs))
     @ stream_contents evs"

text \<open>A content is free of bare empty strings unless it is a list with \<open>""\<close> among its items.\<close>

definition no_bare_empty_string :: "pyval \<Rightarrow> bool" where
  "no_bare_empty_string v = (case v of PList items \<Rightarrow> PStr [] \<notin> set items | _ \<Rightarrow> True)"

section \<open>Sample calls\<close>

definition sample_client :: client where
  "sample_client = AzureOpenAI ''key'' ''2024-02-15-preview'' ''https://example.openai.azure.com''"

definition no_env :: "string \<Rightarrow> string option" where
  "no_env name = None"

definition filter_detail :: "pyval \<Rightarrow> (string \<times> pyval) list" where
  "filter_detail filtered =
     [(''code'', PStr ''content_filter''),
      (''innererror'', PDict [(''code'', PStr ''ResponsibleAIPolicyViolation''),
         (''content_filter_result'', PDict
            [(''hate'', PDict [(''filtered'', PBool False)]),
             (''jailbreak'', PDict [(''filtered'', filtered), (''detected'', filtered)])])])]"

definition filter_payload :: "pyval \<Rightarrow> (string \<times> pyval) list" where
  "filter_payload filtered = [(''error'', PDict (filter_detail filtered))]"

definition reject_stream :: "pyval \<Rightarrow> client \<Rightarrow> request \<Rightarrow> exc + stream" where
  "reject_stream filtered cl rq = Inl (BadRequestError ''Error code: 400'' (PDict (filter_payload filtered)))"

definition reject_completion :: "pyval \<Rightarrow> client \<Rightarrow> request \<Rightarrow> exc + completion" where
  "reject_completion filtered cl rq = Inl (BadRequestError ''Error code: 400'' (PDict (filter_payload filtered)))"

definition timeout_stream_request :: "client \<Rightarrow> request \<Rightarrow> exc + stream" where
  "timeout_stream_request cl rq = Inl (TimeoutError ''timed out'')"

definition timeout_completion_request :: "client \<Rightarrow> request \<Rightarrow> exc + completion" where
  "timeout_completion_request cl rq = Inl (TimeoutError ''timed out'')"

definition timeout_mid_stream :: "client \<Rightarrow> request \<Rightarrow> exc + stream" where
  "timeout_mid_stream cl rq =
     Inr (Stream [Event (Some [StreamChoice (Some (Delta (PStr ''Hel'')))])]
                 (Some (TimeoutError ''timed out'')))"

definition no_choices_reply :: "client \<Rightarrow> request \<Rightarrow> exc + completion" where
  "no_choices_reply cl rq = Inr (Completion (Some []))"

definition mixed_stream :: "client \<Rightarrow> request \<Rightarrow> exc + stream" where
  "mixed_stream cl rq =
     Inr (Stream [Event (Some []),
                  Event (Some [StreamChoice (Some (Delta (PStr ''Hel''))), StreamChoice None]),
                  Event None,
                  Event (Some [StreamChoice (Some (Delta PNone)), StreamChoice (Some (Delta (PStr [])))]),
                  Event (Some [StreamChoice (Some (Delta (PList [PDict [(''type'', PStr ''text''), (''text'', PStr ''lo'')]])))])]
                 None)"

definition empty_string_part_stream :: "client \<Rightarrow> request \<Rightarrow> exc + stream" where
  "empty_string_part_stream cl rq =
     Inr (Stream [Event (Some [StreamChoice (Some (Delta (PList [PStr []])))])] None)"

section \<open>Persistence gateway (utils/database.py)\<close>

subsection \<open>Rows, the store and its answers\<close>

text \<open>
  A timestamp is \<open>datetime.utcnow().isoformat(timespec="seconds")\<close>: the text of a whole
  second, of fixed width, so that the order of the texts is the order of the seconds. It
  is modelled by the number of that second; \<open>now\<close> below is the reading of the clock at
  the call.
\<close>

record session =
  s_id :: string
  s_user_id :: string
  session_name :: string
  s_created_at :: nat
  s_updated_at :: nat

record message =
  m_id :: string
  m_session_id :: string
  m_role :: string
  m_content :: string
  m_tokens_in :: "int option"
  m_tokens_out :: "int option"
  m_created_at :: nat

text \<open>
  The two tables of the remote store, each in the order its rows were inserted, and the
  lines written by \<open>logger.error\<close>.
\<close>

record world =
  sessions_table :: "session list"
  messages_table :: "message list"
  log :: "string list"

text \<open>
  Every \<open>execute()\<close> either is carried out or raises: its outcome, \<open>None\<close> or \<open>Some e\<close>, is
  an argument of the operation. What the store does with rows of equal sort key is its own
  business: \<open>.order(...)\<close> is an argument too, any function that answers with the same rows
  sorted on the key.
\<close>

definition orders_ascending :: "('r \<Rightarrow> nat) \<Rightarrow> ('r list \<Rightarrow> 'r list) \<Rightarrow> bool" where
  "orders_ascending key ord = (\<forall>rows. mset (ord rows) = mset rows \<and> sorted (map key (ord rows)))"

subsection \<open>Sessions\<close>

definition get_user_sessions ::
  "(session list \<Rightarrow> session list) \<Rightarrow> world \<Rightarrow> exc option \<Rightarrow> string \<Rightarrow> session list \<times> world" where
  "get_user_sessions ord w outcome user_id =
     (case outcome of
        Some e \<Rightarrow>
          ([], w\<lparr>log := log w @ [''Failed to get user sessions for '' @ user_id @ '': '' @ exc_str e]\<rparr>)
      | None \<Rightarrow> (ord (filter (\<lambda>s. s_user_id s = user_id) (sessions_table w)), w))"

definition get_session :: "world \<Rightarrow> exc option \<Rightarrow> string \<Rightarrow> session option \<times> world" where
  "get_session w outcome session_id =
     (case outcome of
        Some e \<Rightarrow>
          (None, w\<lparr>log := log w @ [''Failed to get session '' @ session_id @ '': '' @ exc_str e]\<rparr>)
      | None \<Rightarrow>
          (case take 1 (filter (\<lambda>s. s_id s = session_id) (sessions_table w)) of
             [] \<Rightarrow> (None, w)
           | s # rest \<Rightarrow> (Some s, w)))"

definition rename_session :: "world \<Rightarrow> exc option \<Rightarrow> nat \<Rightarrow> string \<Rightarrow> string \<Rightarrow> bool \<times> world" where
  "rename_session w outcome now session_id new_name =
     (case outcome of
        Some e \<Rightarrow>
          (False, w\<lparr>log := log w @ [''Failed to rename session '' @ session_id @ '': '' @ exc_str e]\<rparr>)
      | None \<Rightarrow>
          (True, w\<lparr>sessions_table :=
                     map (\<lambda>s. if s_id s = session_id
                               then s\<lparr>session_name := new_name, s_updated_at := now\<rparr> else s)
                         (sessions_table w)\<rparr>))"

text \<open>
  \<open>delete_session\<close> has two \<open>execute()\<close> calls in one \<open>try\<close>: when the first raises, the
  second is not reached. The result is what the call does at its caller, \<open>Inr ()\<close> for a
  return (of \<open>None\<close>) and \<open>Inl e\<close> for an exception.
\<close>

definition delete_session :: "world \<Rightarrow> exc option \<Rightarrow> exc option \<Rightarrow> string \<Rightarrow> (exc + unit) \<times> world" where
  "delete_session w outcome1 outcome2 session_id =
     (case outcome1 of
        Some e \<Rightarrow>
          (Inr (), w\<lparr>log := log w @ [''Failed to delete session '' @ session_id @ '': '' @ exc_str e]\<rparr>)
      | None \<Rightarrow>
          (let w1 = w\<lparr>messages_table := filter (\<lambda>m. m_session_id m \<noteq> session_id) (messages_table w)\<rparr>
           in case outcome2 of
                Some e \<Rightarrow>
                  (Inr (), w1\<lparr>log := log w1 @ [''Failed to delete session '' @ session_id @ '': '' @ exc_str e]\<rparr>)
              | None \<Rightarrow>
                  (Inr (), w1\<lparr>sessions_table := filter (\<lambda>s. s_id s \<noteq> session_id) (sessions_table w1)\<rparr>)))"

subsection \<open>Messages\<close>

definition get_session_messages ::
  "(message list \<Rightarrow> message list) \<Rightarrow> world \<Rightarrow> exc option \<Rightarrow> string \<Rightarrow> message list \<times> world" where
  "get_session_messages ord w outcome session_id =
     (case outcome of
        Some e \<Rightarrow>
          ([], w\<lparr>log := log w @ [''Failed to get session messages for '' @ session_id @ '': '' @ exc_str e]\<rparr>)
      | None \<Rightarrow> (ord (filter (\<lambda>m. m_session_id m = session_id) (messages_table w)), w))"

text \<open>
  \<open>add_message\<close>: \<open>mid\<close> is the fresh \<open>uuid4\<close>. The insert and the update of the session are
  two calls of the store in one \<open>try\<close>; when the second raises the message stays inserted
  and the function returns \<open>None\<close>.
\<close>

definition add_message ::
  "world \<Rightarrow> exc option \<Rightarrow> exc option \<Rightarrow> string \<Rightarrow> nat \<Rightarrow> string \<Rightarrow> string \<Rightarrow> string \<Rightarrow>
   int option \<Rightarrow> int option \<Rightarrow> string option \<times> world" where
  "add_message w outcome1 outcome2 mid now session_id role text tokens_in tokens_out =
     (let row = \<lparr>m_id = mid, m_session_id = session_id, m_role = role, m_content = text,
                     m_tokens_in = tokens_in, m_tokens_out = tokens_out, m_created_at = now\<rparr>
      in case outcome1 of
           Some e \<Rightarrow>
             (None, w\<lparr>log := log w @ [''Failed to add message to session '' @ session_id @ '': '' @ exc_str e]\<rparr>)
         | None \<Rightarrow>
             (let w1 = w\<lparr>messages_table := messages_table w @ [row]\<rparr>
              in case outcome2 of
                   Some e \<Rightarrow>
                     (None, w1\<lparr>log := log w1 @ [''Failed to add message to session '' @ session_id @ '': '' @ exc_str e]\<rparr>)
                 | None \<Rightarrow>
                     (Some mid, w1\<lparr>sessions_table :=
                                     map (\<lambda>s. if s_id s = session_id then s\<lparr>s_updated_at := now\<rparr> else s)
                                         (sessions_table w1)\<rparr>)))"

text \<open>One call of \<open>add_message\<close> with what the environment answers to it, and a run of calls.\<close>

record append =
  a_id :: string
  a_now :: nat
  a_role :: string
  a_content :: string
  a_tokens_in :: "int option"
  a_tokens_out :: "int option"
  a_insert :: "exc option"
  a_touch :: "exc option"

definition appended_row :: "string \<Rightarrow> append \<Rightarrow> message" where
  "appended_row session_id a =
     \<lparr>m_id = a_id a, m_session_id = session_id, m_role = a_role a, m_content = a_content a,
      m_tokens_in = a_tokens_in a, m_tokens_out = a_tokens_out a, m_created_at = a_now a\<rparr>"

fun add_messages :: "world \<Rightarrow> string \<Rightarrow> append list \<Rightarrow> world" where
  "add_messages w session_id [] = w"
| "add_messages w session_id (a # as) =
     add_messages
       (snd (add_message w (a_insert a) (a_touch a) (a_id a) (a_now a) session_id
               (a_role a) (a_content a) (a_tokens_in a) (a_tokens_out a)))
       session_id as"

subsection \<open>Search\<close>

definition lower_char :: "char \<Rightarrow> char" where
  "lower_char c =
     (case map_of (zip ''ABCDEFGHIJKLMNOPQRSTUVWXYZ'' ''abcdefghijklmnopqrstuvwxyz'') c of
        None \<Rightarrow> c | Some l \<Rightarrow> l)"

definition lower :: "string \<Rightarrow> string" where
  "lower s = map lower_char s"

text \<open>
  Modelled from the spec: \<open>escape_sql_like\<close> of \<open>utils/security.py\<close>, which is not among the
  sources. The query text is escaped against the special characters of the pattern-matching
  operator: the two wildcards \<open>%\<close> and \<open>_\<close> and the escape character itself each get a
  backslash in front.
\<close>

definition escape_sql_like :: "string \<Rightarrow> string" where
  "escape_sql_like s =
     concat (map (\<lambda>c. if c = backslash \<or> c = CHR ''%'' \<or> c = CHR ''_'' then [backslash, c] else [c]) s)"

text \<open>
  The store's side of \<open>.ilike("content", pattern)\<close>: \<open>%\<close> stands for any run of characters,
  \<open>_\<close> for any one character, a backslash makes the next character stand for itself, and
  letters match without regard to case.
\<close>

function like_match :: "string \<Rightarrow> string \<Rightarrow> bool" where
  "like_match [] s = (s = [])"
| "like_match (p # ps) s =
     (if p = CHR ''%'' then
        like_match ps s \<or> (case s of [] \<Rightarrow> False | c # t \<Rightarrow> like_match (p # ps) t)
      else if p = CHR ''_'' then
        (case s of [] \<Rightarrow> False | c # t \<Rightarrow> like_match ps t)
      else if p = backslash then
        (case ps of [] \<Rightarrow> False
         | x # ps' \<Rightarrow> (case s of [] \<Rightarrow> False | c # t \<Rightarrow> x = c \<and> like_match ps' t))
      else (case s of [] \<Rightarrow> False | c # t \<Rightarrow> p = c \<and> like_match ps t))"
  by pat_completeness auto
termination
  by (relation "measure (\<lambda>(p, s). length p + length s)") auto

definition ilike :: "string \<Rightarrow> string \<Rightarrow> bool" where
  "ilike text pattern = like_match (lower pattern) (lower text)"

text \<open>
  The first pass of \<open>search_sessions\<close>, over the names. \<open>matching_sessions\<close> is a dictionary
  keyed by session id: an assignment to a key already there keeps the key's place.
\<close>

fun name_pass :: "string \<Rightarrow> session list \<Rightarrow> (string \<times> session) list \<Rightarrow> (string \<times> session) list" where
  "name_pass q [] matching = matching"
| "name_pass q (s # ss) matching =
     name_pass q ss
       (if contains q (lower (session_name s)) then AList.update (s_id s) s matching else matching)"

text \<open>The last loop, over the sessions whose id the content query returned.\<close>

fun content_pass :: "string list \<Rightarrow> session list \<Rightarrow> (string \<times> session) list \<Rightarrow> (string \<times> session) list" where
  "content_pass matched [] matching = matching"
| "content_pass matched (s # ss) matching =
     content_pass matched ss
       (if s_id s \<in> set matched then AList.update (s_id s) s matching else matching)"

definition search_sessions ::
  "(session list \<Rightarrow> session list) \<Rightarrow> world \<Rightarrow> exc option \<Rightarrow> exc option \<Rightarrow> string \<Rightarrow> string \<Rightarrow>
   session list \<times> world" where
  "search_sessions ord w outcome1 outcome2 user_id query =
     (case get_user_sessions ord w outcome1 user_id of (sessions, w1) \<Rightarrow>
      if query = [] then (sessions, w1)
      else
        (let q = escape_sql_like (lower query);
             matching = name_pass q sessions [];
             session_ids = map s_id (filter (\<lambda>s. s_id s \<notin> fst ` set matching) sessions)
         in if session_ids = [] then (map snd matching, w1)
            else
              (case outcome2 of
                 Some e \<Rightarrow>
                   (map snd matching, w1\<lparr>log := log w1 @ [''Failed to search messages: '' @ exc_str e]\<rparr>)
               | None \<Rightarrow>
                   (let matched = map m_session_id
                          (filter (\<lambda>m. m_session_id m \<in> set session_ids
                                        \<and> ilike (m_content m) (''%'' @ q @ ''%''))
                                  (messages_table w1))
                    in (map snd (content_pass matched sessions matching), w1)))))"

section \<open>Sample stores\<close>

definition math_help :: session where
  "math_help = \<lparr>s_id = ''s1'', s_user_id = ''u1'', session_name = ''Math Help'',
                 s_created_at = 100, s_updated_at = 100\<rparr>"

definition one_session :: world where
  "one_session = \<lparr>sessions_table = [math_help], messages_table = [], log = []\<rparr>"

definition discount :: session where
  "discount = \<lparr>s_id = ''s2'', s_user_id = ''u1'', session_name = ''100% done'',
                s_created_at = 100, s_updated_at = 100\<rparr>"

definition discount_store :: world where
  "discount_store = \<lparr>sessions_table = [discount], messages_table = [], log = []\<rparr>"

definition question :: append where
  "question = \<lparr>a_id = ''m1'', a_now = 107, a_role = ''user'', a_content = ''2+2?'',
                a_tokens_in = None, a_tokens_out = None, a_insert = None, a_touch = None\<rparr>"

definition answer :: append where
  "answer = \<lparr>a_id = ''m2'', a_now = 107, a_role = ''assistant'', a_content = ''4'',
              a_tokens_in = None, a_tokens_out = None, a_insert = None, a_touch = None\<rparr>"

definition later_answer :: append where
  "later_answer = answer\<lparr>a_now := 109\<rparr>"

text \<open>Two stores: one sorts stably, the other scans the table backwards and then sorts stably.\<close>

definition oldest_first :: "message list \<Rightarrow> message list" where
  "oldest_first rows = sort_key m_created_at rows"

definition oldest_first_backwards :: "message list \<Rightarrow> message list" where
  "oldest_first_backwards rows = sort_key m_created_at (rev rows)"

definition newest_first :: "session list \<Rightarrow> session list" where
  "newest_first rows = rev (sort_key s_updated_at rows)"

section \<open>Content normalization\<close>

lemma content_to_text_str: "content_to_text (PStr s) = Inr s"
  by (simp add: content_to_text_def)

lemma content_to_text_none: "content_to_text PNone = Inr []"
  by (simp add: content_to_text_def str_or_empty_def)

lemma content_to_text_empty_list: "content_to_text (PList []) = Inr []"
  by (simp add: content_to_text_def str_or_empty_def)

text \<open>
  C3. Normalization returns a string unchanged and turns \<open>None\<close> into the empty string, but
  a non-empty list none of whose parts carries text does not normalize to the empty string:
  with no part collected, control reaches \<open>str(content or "")\<close>, and the list, being
  non-empty, is printed as Python prints a list. For the one-part list
  \<open>[{"type": "image_url"}]\<close> the result is the text \<open>[{'type': 'image_url'}]\<close>.
\<close>

theorem content_to_text_image_part:
  "content_to_text (PList [PDict [(''type'', PStr ''image_url'')]]) = Inr ''[{'type': 'image_url'}]''"
  by (simp add: content_to_text_def str_or_empty_def repr_str_def repr_char_def
      squote_def dquote_def backslash_def Let_def)

section \<open>Classification of provider failures\<close>

lemma taxonomy_distinct: "PromptInjectionBlocked \<noteq> ContentPolicyBlocked"
  by (simp add: PromptInjectionBlocked_def ContentPolicyBlocked_def)

lemma on_bad_request_flag:
  assumes "map_of b ''error'' = Some (PDict d)"
    and "map_of d ''code'' = Some (PStr ''content_filter'')"
  shows "(spec_jailbreak_flag (PDict d) = Flag True \<longrightarrow> on_bad_request msg (PDict b) = PromptInjectionBlocked)
       \<and> (spec_jailbreak_flag (PDict d) = Flag False \<or> spec_jailbreak_flag (PDict d) = Absent \<longrightarrow>
            on_bad_request msg (PDict b) = ContentPolicyBlocked)"
proof -
  from assms(1) have ne: "b \<noteq> []" by auto
  show ?thesis
    using assms ne
    by (auto simp: on_bad_request_def spec_jailbreak_flag_def flag_member_def
        split: option.splits pyval.splits bool.splits)
qed

text \<open>
  C1. Let the provider reject the request with a payload whose \<open>error\<close> object has the code
  \<open>content_filter\<close>. If the jailbreak flag of the nested filter result is true, both
  \<open>stream_chat\<close> and \<open>complete_chat\<close> raise \<open>PromptInjectionBlocked\<close>; if it is false or
  absent, both raise \<open>ContentPolicyBlocked\<close>; and the two errors differ. The stream
  operation raises before it yields any fragment.
\<close>

theorem content_filter_classification:
  assumes "map_of b ''error'' = Some (PDict d)"
    and "map_of d ''code'' = Some (PStr ''content_filter'')"
    and "require_azure_env deployment name_s = Inr model_s"
    and "require_azure_env deployment name_c = Inr model_c"
    and "get_azure_client cache getenv = Inr cl"
    and "create_s cl \<lparr>req_model = model_s, req_messages = messages,
           req_temperature = temperature, req_timeout = timeout\<rparr> = Inl (BadRequestError msg (PDict b))"
    and "create_c cl \<lparr>req_model = model_c, req_messages = messages,
           req_temperature = temperature, req_timeout = timeout\<rparr> = Inl (BadRequestError msg (PDict b))"
  shows "(spec_jailbreak_flag (PDict d) = Flag True \<longrightarrow>
            stream_chat cache getenv create_s deployment messages temperature name_s timeout
              = ([], Some PromptInjectionBlocked)
          \<and> complete_chat cache getenv create_c deployment messages temperature name_c timeout
              = Inl PromptInjectionBlocked)
       \<and> (spec_jailbreak_flag (PDict d) = Flag False \<or> spec_jailbreak_flag (PDict d) = Absent \<longrightarrow>
            stream_chat cache getenv create_s deployment messages temperature name_s timeout
              = ([], Some ContentPolicyBlocked)
          \<and> complete_chat cache getenv create_c deployment messages temperature name_c timeout
              = Inl ContentPolicyBlocked)
       \<and> PromptInjectionBlocked \<noteq> ContentPolicyBlocked"
  using on_bad_request_flag [OF assms(1,2), of msg] assms(3-7) taxonomy_distinct
  by (simp add: stream_chat_def complete_chat_def)

theorem content_filter_classification_witness:
  "stream_chat (Some sample_client) no_env (reject_stream (PBool True)) (Some ''phi4'') []
     (Float ''0.2'') ''AZURE_PHI4_ORCHESTRATOR'' (Float ''60.0'') = ([], Some PromptInjectionBlocked)
   \<and> complete_chat (Some sample_client) no_env (reject_completion (PBool True)) (Some ''phi4'') []
     (Float ''0.2'') ''AZURE_PHI4_SPECIALIST'' (Float ''60.0'') = Inl PromptInjectionBlocked
   \<and> stream_chat (Some sample_client) no_env (reject_stream (PBool False)) (Some ''phi4'') []
     (Float ''0.2'') ''AZURE_PHI4_ORCHESTRATOR'' (Float ''60.0'') = ([], Some ContentPolicyBlocked)
   \<and> complete_chat (Some sample_client) no_env (reject_completion (PBool False)) (Some ''phi4'') []
     (Float ''0.2'') ''AZURE_PHI4_SPECIALIST'' (Float ''60.0'') = Inl ContentPolicyBlocked"
proof -
  have e: "map_of (filter_payload f) ''error'' = Some (PDict (filter_detail f))" for f
    by (simp add: filter_payload_def)
  have c: "map_of (filter_detail f) ''code'' = Some (PStr ''content_filter'')" for f
    by (simp add: filter_detail_def)
  have rs: "require_azure_env (Some ''phi4'') ''AZURE_PHI4_ORCHESTRATOR'' = Inr ''phi4''"
    and rc: "require_azure_env (Some ''phi4'') ''AZURE_PHI4_SPECIALIST'' = Inr ''phi4''"
    by (simp_all add: require_azure_env_def)
  have g: "get_azure_client (Some sample_client) no_env = Inr sample_client"
    by (simp add: get_azure_client_def)
  have fl: "spec_jailbreak_flag (PDict (filter_detail (PBool v))) = Flag v" for v
    by (simp add: spec_jailbreak_flag_def flag_member_def filter_detail_def)
  have bs: "reject_stream f sample_client rq = Inl (BadRequestError ''Error code: 400'' (PDict (filter_payload f)))"
    for f rq by (simp add: reject_stream_def)
  have bc: "reject_completion f sample_client rq = Inl (BadRequestError ''Error code: 400'' (PDict (filter_payload f)))"
    for f rq by (simp add: reject_completion_def)
  show ?thesis
    using content_filter_classification
        [where create_s = "reject_stream (PBool True)" and create_c = "reject_completion (PBool True)",
         OF e [of "PBool True"] c rs rc g bs bc]
      content_filter_classification
        [where create_s = "reject_stream (PBool False)" and create_c = "reject_completion (PBool False)",
         OF e [of "PBool False"] c rs rc g bs bc]
    by (simp add: fl)
qed

text \<open>
  C7. When the provider answers the single-shot request with an empty list of choices,
  \<open>complete_chat\<close> returns the empty string and raises nothing.
\<close>

theorem complete_chat_no_choices:
  assumes "require_azure_env deployment deployment_name = Inr model"
    and "get_azure_client cache getenv = Inr cl"
    and "create cl \<lparr>req_model = model, req_messages = messages,
           req_temperature = temperature, req_timeout = timeout\<rparr> = Inr resp"
    and "choices resp = Some []"
  shows "complete_chat cache getenv create deployment messages temperature deployment_name timeout = Inr []"
  using assms by (simp add: complete_chat_def)

theorem complete_chat_no_choices_witness:
  "complete_chat (Some sample_client) no_env no_choices_reply (Some ''phi4'') []
     (Float ''0.2'') ''AZURE_PHI4_SPECIALIST'' (Float ''60.0'') = Inr []"
proof -
  have r: "require_azure_env (Some ''phi4'') ''AZURE_PHI4_SPECIALIST'' = Inr ''phi4''"
    by (simp add: require_azure_env_def)
  have g: "get_azure_client (Some sample_client) no_env = Inr sample_client"
    by (simp add: get_azure_client_def)
  have n: "no_choices_reply sample_client rq = Inr (Completion (Some []))" for rq
    by (simp add: no_choices_reply_def)
  show ?thesis
    by (rule complete_chat_no_choices [where create = no_choices_reply, OF r g n]) simp
qed

section \<open>Timeouts\<close>

lemma drain_failure: "snd (drain evs (Some e)) \<noteq> None"
  by (induction evs) (auto split: prod.splits option.splits)

text \<open>
  C2, as the claim states it, fails: when the deadline passes while the stream is being
  drained, \<open>stream_chat\<close> has already yielded a fragment and then raises the stream
  processing error, not \<open>RequestTimeout\<close>.
\<close>

theorem timeout_mid_stream_not_request_timeout:
  "stream_chat (Some sample_client) no_env timeout_mid_stream (Some ''phi4'') []
     (Float ''0.2'') ''AZURE_PHI4_ORCHESTRATOR'' (Float ''60.0'')
     = ([''Hel''], Some (StreamProcessingError (TimeoutError ''timed out'')))
   \<and> StreamProcessingError (TimeoutError ''timed out'') \<noteq> RequestTimeout (Float ''60.0'')"
  by (simp add: stream_chat_def require_azure_env_def get_azure_client_def timeout_mid_stream_def
      wrap_stream_errors_def content_to_text_def StreamProcessingError_def RequestTimeout_def)

text \<open>
  C2, amended. When the transport raises \<open>TimeoutError\<close> on the request itself,
  \<open>stream_chat\<close> (before any fragment) and \<open>complete_chat\<close> raise \<open>RequestTimeout\<close> with
  the timeout they were called with. When the stream raises \<open>TimeoutError\<close> while
  \<open>stream_chat\<close> drains it, the generator ends with a \<open>StreamProcessingError\<close>. In no
  case is the exception that reaches the caller a \<open>TimeoutError\<close>.
\<close>

theorem timeout_classification:
  assumes "require_azure_env deployment name_s = Inr model_s"
    and "require_azure_env deployment name_c = Inr model_c"
    and "get_azure_client cache getenv = Inr cl"
  shows "(create_s cl \<lparr>req_model = model_s, req_messages = messages,
            req_temperature = temperature, req_timeout = timeout\<rparr> = Inl (TimeoutError m) \<longrightarrow>
          stream_chat cache getenv create_s deployment messages temperature name_s timeout
            = ([], Some (RequestTimeout timeout)))
       \<and> (create_c cl \<lparr>req_model = model_c, req_messages = messages,
            req_temperature = temperature, req_timeout = timeout\<rparr> = Inl (TimeoutError m) \<longrightarrow>
          complete_chat cache getenv create_c deployment messages temperature name_c timeout
            = Inl (RequestTimeout timeout))
       \<and> (create_s cl \<lparr>req_model = model_s, req_messages = messages,
            req_temperature = temperature, req_timeout = timeout\<rparr>
              = Inr (Stream evs (Some (TimeoutError m))) \<longrightarrow>
          (\<exists>e. snd (stream_chat cache getenv create_s deployment messages temperature name_s timeout)
                 = Some (StreamProcessingError e)))
       \<and> RequestTimeout timeout \<noteq> TimeoutError m'
       \<and> StreamProcessingError e' \<noteq> TimeoutError m'"
proof -
  obtain e where "snd (drain evs (Some (TimeoutError m))) = Some e"
    using drain_failure [of evs "TimeoutError m"] by auto
  then show ?thesis
    using assms
    by (auto simp: stream_chat_def complete_chat_def wrap_stream_errors_def
        RequestTimeout_def StreamProcessingError_def)
qed

theorem timeout_classification_witness:
  "stream_chat (Some sample_client) no_env timeout_stream_request (Some ''phi4'') []
     (Float ''0.2'') ''AZURE_PHI4_ORCHESTRATOR'' (Float ''60.0'') = ([], Some (RequestTimeout (Float ''60.0'')))
   \<and> complete_chat (Some sample_client) no_env timeout_completion_request (Some ''phi4'') []
     (Float ''0.2'') ''AZURE_PHI4_SPECIALIST'' (Float ''60.0'') = Inl (RequestTimeout (Float ''60.0''))"
proof -
  have rs: "require_azure_env (Some ''phi4'') ''AZURE_PHI4_ORCHESTRATOR'' = Inr ''phi4''"
    and rc: "require_azure_env (Some ''phi4'') ''AZURE_PHI4_SPECIALIST'' = Inr ''phi4''"
    by (simp_all add: require_azure_env_def)
  have g: "get_azure_client (Some sample_client) no_env = Inr sample_client"
    by (simp add: get_azure_client_def)
  show ?thesis
    using timeout_classification
        [where create_s = timeout_stream_request and create_c = timeout_completion_request
           and m = "''timed out''", OF rs rc g]
    by (simp add: timeout_stream_request_def timeout_completion_request_def)
qed

section \<open>Fragments of a stream\<close>

lemma str_nat_nonempty: "str_nat n \<noteq> []"
  by (subst str_nat.simps) simp

lemma str_int_nonempty: "str_int i \<noteq> []"
  by (simp add: str_int_def str_nat_nonempty)

lemma collect_parts_strings:
  "PStr [] \<notin> set items \<Longrightarrow> PStr [] \<notin> set (collect_parts items)"
proof (induction items rule: collect_parts.induct)
  case (2 kvs rest)
  let ?text = "case map_of kvs ''text'' of None \<Rightarrow> PNone | Some v \<Rightarrow> v"
  show ?case
  proof (cases "truthy ?text")
    case True
    then have "?text \<noteq> PStr []" by (metis truthy.simps(4))
    with 2 True show ?thesis by (simp add: Let_def)
  next
    case False
    with 2 show ?thesis by (simp add: Let_def)
  qed
qed auto

lemma str_join_nonempty:
  "str_join i parts = Inr t \<Longrightarrow> parts \<noteq> [] \<Longrightarrow> PStr [] \<notin> set parts \<Longrightarrow> t \<noteq> []"
  by (induction i parts arbitrary: t rule: str_join.induct) (auto split: sum.splits)

lemma str_or_empty_nonempty:
  "truthy v \<Longrightarrow> str_or_empty v \<noteq> []"
  by (cases v) (auto simp: str_or_empty_def str_int_nonempty)

lemma content_to_text_nonempty:
  assumes "truthy v" and "no_bare_empty_string v" and "content_to_text v = Inr t"
  shows "t \<noteq> []"
proof (cases v)
  case (PList items)
  show ?thesis
  proof (cases "collect_parts items = []")
    case True
    with assms PList show ?thesis
      using str_or_empty_nonempty [of v] by (simp add: content_to_text_def)
  next
    case False
    with assms PList have "str_join 0 (collect_parts items) = Inr t"
      by (simp add: content_to_text_def)
    moreover from assms(2) PList have "PStr [] \<notin> set (collect_parts items)"
      by (simp add: no_bare_empty_string_def collect_parts_strings)
    ultimately show ?thesis using False by (rule_tac str_join_nonempty)
  qed
qed (use assms str_or_empty_nonempty [of v] in \<open>auto simp: content_to_text_def\<close>)

lemma drain_choices_nonempty:
  "\<forall>d \<in> set (List.map_filter sc_delta cs). no_bare_empty_string (content d)
   \<Longrightarrow> t \<in> set (fst (drain_choices cs)) \<Longrightarrow> t \<noteq> []"
proof (induction cs arbitrary: t)
  case Nil
  then show ?case by simp
next
  case (Cons c cs)
  then show ?case
    by (auto simp: List.map_filter_simps split: option.splits if_splits sum.splits
        dest: content_to_text_nonempty)
qed

lemma drain_nonempty:
  "\<forall>v \<in> set (stream_contents evs). no_bare_empty_string v
   \<Longrightarrow> t \<in> set (fst (drain evs fl)) \<Longrightarrow> t \<noteq> []"
proof (induction evs arbitrary: t)
  case Nil
  then show ?case by simp
next
  case (Cons ev evs)
  have ch: "\<forall>d \<in> set (List.map_filter sc_delta (case ev_choices ev of None \<Rightarrow> [] | Some cs \<Rightarrow> cs)).
              no_bare_empty_string (content d)"
    using Cons.prems(1) by simp
  have rest: "\<forall>v \<in> set (stream_contents evs). no_bare_empty_string v"
    using Cons.prems(1) by simp
  from Cons.prems(2) show ?case
    using drain_choices_nonempty [OF ch] Cons.IH [OF rest]
    by (auto split: prod.splits option.splits)
qed

text \<open>
  C9, as the claim states it, fails: a delta whose content is the list \<open>[""]\<close> is truthy, so
  it is not skipped, and it normalizes to the empty string, which \<open>stream_chat\<close> yields.
\<close>

theorem stream_chat_yields_empty_fragment:
  "stream_chat (Some sample_client) no_env empty_string_part_stream (Some ''phi4'') []
     (Float ''0.2'') ''AZURE_PHI4_ORCHESTRATOR'' (Float ''60.0'') = ([[]], None)"
  by (simp add: stream_chat_def require_azure_env_def get_azure_client_def
      empty_string_part_stream_def wrap_stream_errors_def content_to_text_def)

text \<open>
  C9, amended. Every fragment \<open>stream_chat\<close> yields is a non-empty string, provided no
  delta content of the stream is a list with a bare empty string among its items; and a
  choice with no delta, or with a delta whose content is falsy (null, the empty string,
  the empty list), is skipped.
\<close>

theorem stream_chat_fragments_nonempty:
  assumes "\<forall>cl rq st. create cl rq = Inr st \<longrightarrow>
             (\<forall>v \<in> set (stream_contents (events st)). no_bare_empty_string v)"
  shows "(\<forall>t \<in> set (fst (stream_chat cache getenv create deployment messages temperature
                             deployment_name timeout)). t \<noteq> [])
       \<and> drain_choices (StreamChoice None # cs) = drain_choices cs
       \<and> (\<not> truthy v \<longrightarrow> drain_choices (StreamChoice (Some (Delta v)) # cs) = drain_choices cs)"
proof -
  have "t \<noteq> []"
    if "t \<in> set (fst (stream_chat cache getenv create deployment messages temperature
                         deployment_name timeout))" for t
  proof -
    from that obtain cl rq st where c: "create cl rq = Inr st"
      and t: "t \<in> set (fst (drain (events st) (failure st)))"
      by (auto simp: stream_chat_def wrap_stream_errors_def split: sum.splits exc.splits)
    from assms c have "\<forall>v \<in> set (stream_contents (events st)). no_bare_empty_string v"
      by blast
    then show ?thesis using t by (rule drain_nonempty)
  qed
  then show ?thesis by simp
qed

theorem stream_chat_fragments_nonempty_witness:
  "fst (stream_chat (Some sample_client) no_env mixed_stream (Some ''phi4'') []
     (Float ''0.2'') ''AZURE_PHI4_ORCHESTRATOR'' (Float ''60.0'')) = [''Hel'', ''lo'']
   \<and> [] \<notin> set (fst (stream_chat (Some sample_client) no_env mixed_stream (Some ''phi4'') []
     (Float ''0.2'') ''AZURE_PHI4_ORCHESTRATOR'' (Float ''60.0'')))"
proof -
  have h: "\<forall>cl rq st. mixed_stream cl rq = Inr st \<longrightarrow>
             (\<forall>v \<in> set (stream_contents (events st)). no_bare_empty_string v)"
    by (auto simp: mixed_stream_def no_bare_empty_string_def List.map_filter_simps)
  have "\<forall>t \<in> set (fst (stream_chat (Some sample_client) no_env mixed_stream (Some ''phi4'') []
     (Float ''0.2'') ''AZURE_PHI4_ORCHESTRATOR'' (Float ''60.0''))). t \<noteq> []"
    using stream_chat_fragments_nonempty [where create = mixed_stream, OF h] by blast
  moreover have "fst (stream_chat (Some sample_client) no_env mixed_stream (Some ''phi4'') []
     (Float ''0.2'') ''AZURE_PHI4_ORCHESTRATOR'' (Float ''60.0'')) = [''Hel'', ''lo'']"
    by (simp add: stream_chat_def require_azure_env_def get_azure_client_def mixed_stream_def
        wrap_stream_errors_def content_to_text_def Let_def)
  ultimately show ?thesis by auto
qed

section \<open>Search\<close>

text \<open>
  C8. With the empty query \<open>search_sessions\<close> returns what its own call of
  \<open>get_user_sessions\<close> returned, the same sessions in the same order, and leaves the same
  log behind.
\<close>

theorem search_empty_query:
  "search_sessions ord w outcome1 outcome2 user_id [] = get_user_sessions ord w outcome1 user_id"
  by (simp add: search_sessions_def split: prod.splits)

text \<open>
  C5. The name pass does not look for the case-folded query in the name: it looks for the
  escaped text \<open>q\<close>, the one built for the content pattern. The user has one session, named
  \<open>100% done\<close>, and searches for \<open>100%\<close>: the name contains the case-folded query, the
  name pass looks for \<open>100\%\<close>, and the search returns nothing; a query without special
  characters finds the session.
\<close>

theorem search_percent_name:
  "contains (lower ''100%'') (lower (session_name discount))
   \<and> fst (get_user_sessions newest_first discount_store None ''u1'') = [discount]
   \<and> fst (search_sessions newest_first discount_store None None ''u1'' ''100%'') = []
   \<and> fst (search_sessions newest_first discount_store None None ''u1'' ''DONE'') = [discount]"
  by (simp add: search_sessions_def get_user_sessions_def discount_store_def discount_def
      newest_first_def lower_def lower_char_def escape_sql_like_def backslash_def Let_def ilike_def)

section \<open>Deleting a session\<close>

text \<open>
  C10. Whatever the two deletes do, \<open>delete_session\<close> returns, and returns the same thing as
  when both succeed. When the first delete raises, the session row and the messages are
  still there; when the second raises, the messages are gone and the session row is still
  there; in both cases the only trace is a line in the log.
\<close>

theorem delete_session_silent:
  "fst (delete_session w outcome1 outcome2 session_id) = Inr ()
   \<and> fst (delete_session w outcome1 outcome2 session_id) = fst (delete_session w None None session_id)
   \<and> sessions_table (snd (delete_session w (Some e) outcome2 session_id)) = sessions_table w
   \<and> messages_table (snd (delete_session w (Some e) outcome2 session_id)) = messages_table w
   \<and> log (snd (delete_session w (Some e) outcome2 session_id))
       = log w @ [''Failed to delete session '' @ session_id @ '': '' @ exc_str e]
   \<and> sessions_table (snd (delete_session w None (Some e) session_id)) = sessions_table w
   \<and> messages_table (snd (delete_session w None (Some e) session_id))
       = filter (\<lambda>m. m_session_id m \<noteq> session_id) (messages_table w)
   \<and> log (snd (delete_session w None (Some e) session_id))
       = log w @ [''Failed to delete session '' @ session_id @ '': '' @ exc_str e]"
  by (simp add: delete_session_def Let_def split: option.splits)

section \<open>Renaming a session\<close>

text \<open>
  C6, as the claim states it, fails: a session last updated in second 100 and renamed in
  that same second has, after the rename, the updated-at it had before.
\<close>

theorem rename_same_second:
  "fst (rename_session one_session None 100 ''s1'' ''Algebra'') = True
   \<and> map_option s_updated_at (fst (get_session one_session None ''s1'')) = Some 100
   \<and> map_option s_updated_at
        (fst (get_session (snd (rename_session one_session None 100 ''s1'' ''Algebra'')) None ''s1''))
       = Some 100"
  by (simp add: rename_session_def get_session_def one_session_def math_help_def)

lemma take1_filter_map:
  assumes "\<And>x. P (f x) = P x"
  shows "take 1 (filter P (map f xs)) = map f (take 1 (filter P xs))"
  using assms by (induction xs) auto

text \<open>
  C6, amended. After a successful rename of a session that \<open>get_session\<close> finds, a
  following \<open>get_session\<close> returns that session with the new name and with the second of
  the rename as its updated-at; this is strictly greater than the prior value exactly when
  the rename falls in a later second than the prior update. The reads \<open>get_session\<close> and
  \<open>get_user_sessions\<close> leave the sessions table as it is.
\<close>

theorem rename_then_get:
  assumes "fst (get_session w None session_id) = Some s"
  shows "fst (rename_session w None now session_id new_name) = True
       \<and> fst (get_session (snd (rename_session w None now session_id new_name)) None session_id)
           = Some (s\<lparr>session_name := new_name, s_updated_at := now\<rparr>)
       \<and> (s_updated_at s < s_updated_at (s\<lparr>session_name := new_name, s_updated_at := now\<rparr>)
            \<longleftrightarrow> s_updated_at s < now)
       \<and> sessions_table (snd (get_session w outcome session_id)) = sessions_table w
       \<and> sessions_table (snd (get_user_sessions ord w outcome user_id)) = sessions_table w"
proof -
  let ?f = "\<lambda>s. if s_id s = session_id then s\<lparr>session_name := new_name, s_updated_at := now\<rparr> else s"
  from assms obtain rest where t: "take 1 (filter (\<lambda>s. s_id s = session_id) (sessions_table w)) = s # rest"
    by (auto simp: get_session_def split: list.splits)
  then have "s \<in> set (take 1 (filter (\<lambda>s. s_id s = session_id) (sessions_table w)))" by simp
  then have sid: "s_id s = session_id" by (auto dest!: in_set_takeD)
  have "take 1 (filter (\<lambda>s. s_id s = session_id) (map ?f (sessions_table w)))
        = map ?f (take 1 (filter (\<lambda>s. s_id s = session_id) (sessions_table w)))"
    by (rule take1_filter_map) simp
  with t sid have "take 1 (filter (\<lambda>s. s_id s = session_id) (map ?f (sessions_table w)))
        = s\<lparr>session_name := new_name, s_updated_at := now\<rparr> # map ?f rest" by simp
  then show ?thesis
    by (simp add: rename_session_def get_session_def get_user_sessions_def
        split: option.splits list.splits)
qed

theorem rename_then_get_witness:
  "fst (get_session (snd (rename_session one_session None 130 ''s1'' ''Algebra'')) None ''s1'')
     = Some (math_help\<lparr>session_name := ''Algebra'', s_updated_at := 130\<rparr>)
   \<and> s_updated_at math_help < 130"
proof -
  have "fst (get_session one_session None ''s1'') = Some math_help"
    by (simp add: get_session_def one_session_def math_help_def)
  from rename_then_get [OF this, of 130 "''Algebra''"] show ?thesis
    by (simp add: math_help_def)
qed

section \<open>Replaying the messages of a session\<close>

lemma add_message_table:
  "messages_table (snd (add_message w None o2 mid now sid role text ti to))
     = messages_table w @ [\<lparr>m_id = mid, m_session_id = sid, m_role = role, m_content = text,
                             m_tokens_in = ti, m_tokens_out = to, m_created_at = now\<rparr>]"
  by (simp add: add_message_def Let_def split: option.splits)

lemma add_messages_table:
  "\<forall>a \<in> set calls. a_insert a = None \<Longrightarrow>
   messages_table (add_messages w sid calls) = messages_table w @ map (appended_row sid) calls"
  by (induction calls arbitrary: w) (simp_all add: add_message_table appended_row_def)

lemma sorted_permutation_unique:
  assumes "mset xs = mset ys" and "sorted (map f xs)" and "sorted_wrt (<) (map f ys)"
  shows "xs = ys"
proof -
  from assms(3) have sy: "sorted (map f ys)" and dy: "distinct (map f ys)"
    by (simp_all add: strict_sorted_iff)
  from assms(1) have m: "mset (map f xs) = mset (map f ys)" by simp
  from m dy have dx: "distinct (map f xs)" by (metis mset_eq_imp_distinct_iff)
  from m have "set (map f xs) = set (map f ys)" by (rule mset_eq_setD)
  with assms(2) sy dx dy have eq: "map f xs = map f ys"
    by (intro sorted_distinct_set_unique)
  from assms(1) have "set xs = set ys" by (rule mset_eq_setD)
  moreover from dy have "inj_on f (set ys)" by (simp add: distinct_map)
  ultimately have "inj_on f (set xs \<union> set ys)" by simp
  with eq show ?thesis by (simp add: inj_on_map_eq_map)
qed

lemma oldest_first_orders: "orders_ascending m_created_at oldest_first"
  by (simp add: orders_ascending_def oldest_first_def)

lemma oldest_first_backwards_orders: "orders_ascending m_created_at oldest_first_backwards"
  by (simp add: orders_ascending_def oldest_first_backwards_def)

text \<open>
  C4, as the claim states it, fails: the question and the answer are appended, in this
  order, within one second, so they carry the same created-at, and a store that orders by
  created-at may hand them back answer first.
\<close>

theorem same_second_messages_reordered:
  "orders_ascending m_created_at oldest_first_backwards
   \<and> fst (add_message one_session None None ''m1'' 107 ''s1'' ''user'' ''2+2?'' None None) = Some ''m1''
   \<and> fst (get_session_messages oldest_first_backwards
            (add_messages one_session ''s1'' [question, answer]) None ''s1'')
       = [appended_row ''s1'' answer, appended_row ''s1'' question]
   \<and> map m_content (fst (get_session_messages oldest_first_backwards
            (add_messages one_session ''s1'' [question, answer]) None ''s1'')) = [''4'', ''2+2?'']"
  by (simp add: oldest_first_backwards_orders get_session_messages_def add_message_def Let_def
      one_session_def math_help_def question_def answer_def oldest_first_backwards_def appended_row_def)

text \<open>
  C4, amended. Take a session with no messages and \<open>N\<close> calls of \<open>add_message\<close> on it, one
  after the other, whose inserts succeed and whose clock readings, in whole seconds, are
  strictly increasing. Then, whatever the store does with equal keys, \<open>get_session_messages\<close>
  returns exactly the \<open>N\<close> rows of the calls, in the order of the calls.
\<close>

theorem messages_replay_in_order:
  assumes "orders_ascending m_created_at ord"
    and "\<forall>m \<in> set (messages_table w). m_session_id m \<noteq> session_id"
    and "\<forall>a \<in> set calls. a_insert a = None"
    and "sorted_wrt (<) (map a_now calls)"
  shows "fst (get_session_messages ord (add_messages w session_id calls) None session_id)
           = map (appended_row session_id) calls
       \<and> length (fst (get_session_messages ord (add_messages w session_id calls) None session_id))
           = length calls"
proof -
  let ?rows = "map (appended_row session_id) calls"
  have old: "filter (\<lambda>m. m_session_id m = session_id) (messages_table w) = []"
    using assms(2) by (simp add: filter_empty_conv)
  have new: "filter (\<lambda>m. m_session_id m = session_id) ?rows = ?rows"
    by (simp add: appended_row_def)
  have sel: "filter (\<lambda>m. m_session_id m = session_id)
               (messages_table (add_messages w session_id calls)) = ?rows"
    using old new by (simp add: add_messages_table [OF assms(3)])
  have keys: "map m_created_at ?rows = map a_now calls"
    by (simp add: appended_row_def comp_def)
  from assms(1) have "mset (ord ?rows) = mset ?rows" and "sorted (map m_created_at (ord ?rows))"
    by (simp_all add: orders_ascending_def)
  moreover have "sorted_wrt (<) (map m_created_at ?rows)"
    unfolding keys by (rule assms(4))
  ultimately have "ord ?rows = ?rows" by (rule sorted_permutation_unique)
  with sel show ?thesis by (simp add: get_session_messages_def)
qed

theorem messages_replay_in_order_witness:
  "fst (get_session_messages oldest_first (add_messages one_session ''s1'' [question, later_answer])
          None ''s1'')
     = [appended_row ''s1'' question, appended_row ''s1'' later_answer]"
proof -
  have f: "\<forall>m \<in> set (messages_table one_session). m_session_id m \<noteq> ''s1''"
    by (simp add: one_session_def)
  have i: "\<forall>a \<in> set [question, later_answer]. a_insert a = None"
    by (simp add: question_def later_answer_def answer_def)
  have s: "sorted_wrt (<) (map a_now [question, later_answer])"
    by (simp add: question_def later_answer_def answer_def)
  from messages_replay_in_order [OF oldest_first_orders f i s] show ?thesis by simp
qed

end
